theory Spec2Isabelle
  imports Complex_Main
begin

section \<open>Data model\<close>

text \<open>
  Values typed \<open>any\<close> in the source (the network descriptor of a threshold event, the
  data spread into an indicator result) are modelled by a small JSON-like datatype.
\<close>

datatype json =
    JNull
  | JBool bool
  | JNum int
  | JStr string
  | JArr "json list"
  | JObj "(string \<times> json) list"

datatype indicator_status = UP | DOWN

text \<open>
  The result of one indicator: the key it was checked under, its status, and the
  indicator-specific data.
\<close>

record IndicatorResult =
  name :: string
  status :: indicator_status
  detail :: "string \<rightharpoonup> json"

text \<open>
  Everything that can be thrown. \<open>HealthCheckError\<close> carries a message and, as its
  causes, the result of the indicator that failed.
\<close>

datatype error =
    HealthCheckError string IndicatorResult
  | BadRequestException string
  | TypeError string
  | Error string

fun message :: "error \<Rightarrow> string" where
  "message (HealthCheckError m c) = m"
| "message (BadRequestException m) = m"
| "message (TypeError m) = m"
| "message (Error m) = m"

text \<open>
  Modelled from the spec: the \<open>getStatus\<close> helper of the health-indicator base class
  is inherited from the health-check framework and is not part of the repository's
  sources. The spec describes it as the helper that builds an IndicatorResult from
  (name, bool, detail), with status UP for true and DOWN for false.
\<close>

definition getStatus :: "string \<Rightarrow> bool \<Rightarrow> (string \<rightharpoonup> json) \<Rightarrow> IndicatorResult" where
  "getStatus key isHealthy data =
     \<lparr>name = key, status = (if isHealthy then UP else DOWN), detail = data\<rparr>"

section \<open>System information\<close>

text \<open>
  The shapes of \<open>infos.interface.ts\<close>. JavaScript numbers are modelled as reals where
  the source divides. The byte counters of a per-interface statistic are typed \<open>any\<close>
  in the source and are never coerced: their type is the parameter \<open>'v\<close>, and so is the
  type of the network field, which is built from them. A per-interface statistic of the
  network-statistics provider has the two counters and the interface's name.
\<close>

record IHealthInfosCPU =
  usage :: real
  cpus :: nat
  speed :: real

record IHealthInfosMemory =
  totalMemMb :: real
  usedMemMb :: real
  freeMemMb :: real
  usedMemPercentage :: real
  freeMemPercentage :: real

record IHealthInfosDrive =
  totalGb :: string
  usedGb :: string
  freeGb :: string
  usedPercentage :: string
  freePercentage :: string

record 'v IHealthInfosNetwork =
  inputBytes :: 'v
  outputBytes :: 'v

record 'v NetStat = "'v IHealthInfosNetwork" +
  interface :: string

record 'v IHealthInfos =
  platform :: string
  release :: string
  machine :: string
  arch :: string
  uptime :: real
  cpu :: IHealthInfosCPU
  memory :: IHealthInfosMemory
  drive :: IHealthInfosDrive
  network :: "'v IHealthInfosNetwork"

text \<open>
  What the operating system, the metrics library and the runtime answer at the time of
  a call: \<open>process.cpuUsage()\<close> (cumulative microseconds), \<open>os.cpus()\<close> (one entry per
  core, of which only the speed is read), and the providers of \<open>node-os-utils\<close>, each
  of which may fail. The last two fields are the runtime's part: what JavaScript's \<open>+\<close>
  gives on two values typed \<open>any\<close>, and the number \<open>0\<close> as such a value.
\<close>

record CpuUsage =
  user :: nat
  system :: nat

record os_cpu =
  cpu_speed :: nat

record 'v providers =
  process_cpuUsage :: CpuUsage
  os_cpus :: "os_cpu list"
  os_platform :: string
  os_release :: string
  os_uptime :: real
  osu_os_oos :: "error + string"
  osu_os_arch :: "error + string"
  osu_mem_info :: "error + IHealthInfosMemory"
  osu_drive_info :: "error + IHealthInfosDrive"
  osu_netstat_stats :: "error + 'v NetStat list"
  add_any :: "'v \<Rightarrow> 'v \<Rightarrow> 'v"
  number_zero :: 'v

text \<open>
  \<open>Array.prototype.reduce\<close> without an initial value: it throws a TypeError on an
  empty array and otherwise starts from the first element.
\<close>

fun reduce :: "('a \<Rightarrow> 'a \<Rightarrow> 'a) \<Rightarrow> 'a list \<Rightarrow> error + 'a" where
  "reduce f [] = Inl (TypeError ''Reduce of empty array with no initial value'')"
| "reduce f (x # xs) = Inr (foldl f x xs)"

definition getCpuUsage :: "'v providers \<Rightarrow> error + IHealthInfosCPU" where
  "getCpuUsage env =
     (let usage = process_cpuUsage env;
          cpuUsage = real (user usage + system usage)
                       / real (length (os_cpus env) * 1000 * 1000)
      in case reduce (\<lambda>acc curr. acc + curr) (map (\<lambda>cpu. real (cpu_speed cpu)) (os_cpus env)) of
           Inl e \<Rightarrow> Inl e
         | Inr speeds \<Rightarrow>
             Inr \<lparr>usage = cpuUsage, cpus = length (os_cpus env),
                  speed = speeds / real (length (os_cpus env))\<rparr>)"

text \<open>
  \<open>infos\<close>: the network part sits in a try/catch of its own; the other providers are
  awaited in the order of the returned object literal, and the first failure rejects.
\<close>

definition infos_network :: "'v providers \<Rightarrow> 'v IHealthInfosNetwork" where
  "infos_network env =
     (case osu_netstat_stats env of
        Inr stats \<Rightarrow>
          foldl (\<lambda>acc curr. \<lparr>inputBytes = add_any env (inputBytes acc) (inputBytes curr),
                              outputBytes = add_any env (outputBytes acc) (outputBytes curr)\<rparr>)
            \<lparr>inputBytes = number_zero env, outputBytes = number_zero env\<rparr>
            (map (\<lambda>stat. \<lparr>inputBytes = inputBytes stat, outputBytes = outputBytes stat\<rparr>) stats)
      | Inl err \<Rightarrow> \<lparr>inputBytes = number_zero env, outputBytes = number_zero env\<rparr>)"

definition infos :: "'v providers \<Rightarrow> error + 'v IHealthInfos" where
  "infos env =
     (let network = infos_network env
      in case osu_os_oos env of Inl e \<Rightarrow> Inl e | Inr machine_v \<Rightarrow>
         case osu_os_arch env of Inl e \<Rightarrow> Inl e | Inr arch_v \<Rightarrow>
         case getCpuUsage env of Inl e \<Rightarrow> Inl e | Inr cpu_v \<Rightarrow>
         case osu_mem_info env of Inl e \<Rightarrow> Inl e | Inr memory_v \<Rightarrow>
         case osu_drive_info env of Inl e \<Rightarrow> Inl e | Inr drive_v \<Rightarrow>
           Inr \<lparr>platform = os_platform env, release = os_release env, machine = machine_v,
                arch = arch_v, uptime = os_uptime env, cpu = cpu_v, memory = memory_v,
                drive = drive_v, network = network\<rparr>)"

text \<open>
  JavaScript's \<open>+\<close> on the values followed here: numbers that are non-negative
  integers, as long as they stay below \<open>2^53\<close> (where the addition of doubles is exact),
  and strings. Two numbers are added; as soon as one operand is a string the other is
  converted to a string and the two are concatenated, a number being written in
  decimal. \<open>JSOther\<close> is a value that is not followed (any other number, undefined, an
  object), and so is the result of adding it.
\<close>

datatype jsval = JSNumber nat | JSString string | JSOther

fun decimal :: "nat \<Rightarrow> string" where
  "decimal n =
     (if n < 10 then [''0123456789'' ! n]
      else decimal (n div 10) @ [''0123456789'' ! (n mod 10)])"

declare decimal.simps [simp del]

fun js_plus :: "jsval \<Rightarrow> jsval \<Rightarrow> jsval" where
  "js_plus (JSNumber a) (JSNumber b) = (if a + b < 2 ^ 53 then JSNumber (a + b) else JSOther)"
| "js_plus (JSNumber a) (JSString t) = (if a < 2 ^ 53 then JSString (decimal a @ t) else JSOther)"
| "js_plus (JSString s) (JSNumber b) = (if b < 2 ^ 53 then JSString (s @ decimal b) else JSOther)"
| "js_plus (JSString s) (JSString t) = JSString (s @ t)"
| "js_plus _ _ = JSOther"

section \<open>The DAG health indicator\<close>

text \<open>
  The two private fields of \<open>DagHealthIndicator\<close>: the flag \<open>_isHealthy\<close> (here
  \<open>priv_isHealthy\<close>, an identifier cannot start with an underscore) and \<open>dagNetwork\<close>.
\<close>

record DagHealthIndicator =
  priv_isHealthy :: bool
  dagNetwork :: json

record NetworkPayload =
  network :: json

text \<open>Field initialisers: \<open>_isHealthy = false\<close>, \<open>dagNetwork = new Array()\<close>.\<close>

definition new_DagHealthIndicator :: DagHealthIndicator where
  "new_DagHealthIndicator = \<lparr>priv_isHealthy = False, dagNetwork = JArr []\<rparr>"

definition handleNetworkThresholdOnline ::
  "NetworkPayload \<Rightarrow> DagHealthIndicator \<Rightarrow> DagHealthIndicator" where
  "handleNetworkThresholdOnline payload this =
     (let this1 = this\<lparr>priv_isHealthy := True\<rparr>
      in this1\<lparr>dagNetwork := network payload\<rparr>)"

definition handleNetworkThresholdOffline ::
  "NetworkPayload \<Rightarrow> DagHealthIndicator \<Rightarrow> DagHealthIndicator" where
  "handleNetworkThresholdOffline payload this =
     (let this1 = this\<lparr>priv_isHealthy := False\<rparr>
      in this1\<lparr>dagNetwork := network payload\<rparr>)"

text \<open>
  \<open>isHealthy\<close> builds the result first and then either returns it or throws a
  \<open>HealthCheckError\<close> that carries it.
\<close>

definition isHealthy :: "DagHealthIndicator \<Rightarrow> error + IndicatorResult" where
  "isHealthy this =
     (let result = getStatus ''dag'' (priv_isHealthy this) [''network'' \<mapsto> dagNetwork this]
      in if priv_isHealthy this then Inr result
         else Inl (HealthCheckError ''Dagcheck failed'' result))"

text \<open>
  The spec's single notification entry point \<open>OnThresholdCrossed(isOnline, descriptor)\<close>
  is, in the source, the pair of event handlers: the online event and the offline event,
  each delivering a payload \<open>{network: descriptor}\<close>.
\<close>

definition OnThresholdCrossed :: "bool \<Rightarrow> json \<Rightarrow> DagHealthIndicator \<Rightarrow> DagHealthIndicator" where
  "OnThresholdCrossed isOnline descriptor this =
     (if isOnline then handleNetworkThresholdOnline \<lparr>network = descriptor\<rparr> this
      else handleNetworkThresholdOffline \<lparr>network = descriptor\<rparr> this)"

section \<open>The aggregate health check\<close>

datatype aggregate_status = OK | ERROR

record AggregateReport =
  report_status :: aggregate_status
  info :: "string \<rightharpoonup> IndicatorResult"
  error :: "string \<rightharpoonup> IndicatorResult"
  details :: "string \<rightharpoonup> IndicatorResult"

text \<open>
  A promise is settled one way or the other. A call of a method that is not
  \<open>async\<close> may also throw before it returns its promise: \<open>error + 'a promise\<close>.
\<close>

datatype 'a promise = Resolved 'a | Rejected error

type_synonym HealthIndicatorFunction = "unit \<Rightarrow> error + IndicatorResult"

text \<open>
  \<open>HealthCheckService.check\<close> belongs to the health-check framework and is not part of
  the repository's sources; the repository only calls it. The four definitions below
  follow the spec's Aggregator, which runs a named, ordered list of indicator-check
  functions.
\<close>

text \<open>
  Modelled from the spec: the isolated invocation of one indicator, missing with
  \<open>HealthCheckService.check\<close>. A fault raised by an indicator is caught and converted
  into a DOWN result for that name; a check-failed error carries the indicator's own
  result, which is kept as context.
\<close>

definition run_isolated :: "string \<times> HealthIndicatorFunction \<Rightarrow> string \<times> IndicatorResult" where
  "run_isolated = (\<lambda>(key, indicator).
     (key,
      case indicator () of
        Inr result \<Rightarrow> result
      | Inl (HealthCheckError m causes) \<Rightarrow> causes\<lparr>status := DOWN\<rparr>
      | Inl e \<Rightarrow> \<lparr>name = key, status = DOWN, detail = [''message'' \<mapsto> JStr (message e)]\<rparr>))"

text \<open>
  An indicator fails when it throws, or when the result it returns has status DOWN.
\<close>

definition fails :: "HealthIndicatorFunction \<Rightarrow> bool" where
  "fails indicator = (case indicator () of Inl e \<Rightarrow> True | Inr result \<Rightarrow> status result = DOWN)"

text \<open>
  Modelled from the spec: filling one of the report's maps from name to result, missing
  with \<open>HealthCheckService.check\<close>.
\<close>

definition populate :: "(string \<times> IndicatorResult) list \<Rightarrow> (string \<rightharpoonup> IndicatorResult)" where
  "populate entries = foldl (\<lambda>m (key, result). m(key \<mapsto> result)) Map.empty entries"

text \<open>
  Modelled from the spec: the assembly of the report, missing with
  \<open>HealthCheckService.check\<close>. The results are partitioned into info (UP) and error
  (DOWN), details holds all of them, and the overall status is OK iff error is empty.
\<close>

definition assemble :: "(string \<times> IndicatorResult) list \<Rightarrow> AggregateReport" where
  "assemble results =
     (let up = filter (\<lambda>(key, result). status result = UP) results;
          down = filter (\<lambda>(key, result). status result = DOWN) results
      in \<lparr>report_status = (if down = [] then OK else ERROR),
          info = populate up, error = populate down, details = populate results\<rparr>)"

text \<open>
  Modelled from the spec: \<open>HealthCheckService.check\<close> itself, which is not under the
  repository's sources. Every registered indicator is invoked in isolation, in
  registration order, and the call resolves with the assembled report: it does not fail
  on an indicator failure.
\<close>

definition HealthCheckService_check ::
  "(string \<times> HealthIndicatorFunction) list \<Rightarrow> AggregateReport promise" where
  "HealthCheckService_check healthIndicators =
     Resolved (assemble (map run_isolated healthIndicators))"

text \<open>
  The service. Its collaborators are injected; the library indicators (disk, memory,
  mongoose, microservice) are parameters: whatever they return or throw when called
  with the key and options the service passes.
\<close>

record DiskOptions =
  path :: string
  thresholdPercent :: real

record RedisOptions =
  host :: string
  port :: nat
  password :: "string option"

record HealthService =
  disk_checkStorage :: "string \<Rightarrow> DiskOptions \<Rightarrow> error + IndicatorResult"
  memory_checkHeap :: "string \<Rightarrow> nat \<Rightarrow> error + IndicatorResult"
  memory_checkRSS :: "string \<Rightarrow> nat \<Rightarrow> error + IndicatorResult"
  mongoose_pingCheck :: "string \<Rightarrow> error + IndicatorResult"
  microservice_pingCheck :: "string \<Rightarrow> RedisOptions \<Rightarrow> error + IndicatorResult"
  dagHealthIndicator :: DagHealthIndicator
  redisOptions :: RedisOptions

text \<open>
  The six indicator functions of \<open>HealthService.check\<close>, in the order of the source,
  each paired with the key it reports under (the key the source passes to the library
  indicator, and \<open>dag\<close> for the DAG indicator).
\<close>

definition registered :: "HealthService \<Rightarrow> (string \<times> HealthIndicatorFunction) list" where
  "registered this =
     [(''storage'', \<lambda>_. disk_checkStorage this ''storage'' \<lparr>path = ''/'', thresholdPercent = 0.5\<rparr>),
      (''memory_heap'', \<lambda>_. memory_checkHeap this ''memory_heap'' (500 * 1024 * 1024)),
      (''memory_rss'', \<lambda>_. memory_checkRSS this ''memory_rss'' (500 * 1024 * 1024)),
      (''mongoose'', \<lambda>_. mongoose_pingCheck this ''mongoose''),
      (''redis'', \<lambda>_. microservice_pingCheck this ''redis'' (redisOptions this)),
      (''dag'', \<lambda>_. isHealthy (dagHealthIndicator this))]"

definition HealthService_check :: "HealthService \<Rightarrow> AggregateReport promise" where
  "HealthService_check this = HealthCheckService_check (registered this)"

definition HealthService_infos :: "'v providers \<Rightarrow> 'v IHealthInfos promise" where
  "HealthService_infos env = (case infos env of Inl e \<Rightarrow> Rejected e | Inr v \<Rightarrow> Resolved v)"

section \<open>The controller\<close>

text \<open>
  \<open>HealthController.check\<close> is not \<open>async\<close> and returns the service's promise without
  awaiting it: its try/catch sees only an error thrown by the call itself.
  \<open>HealthController.infos\<close> is \<open>async\<close> and awaits inside the try: a rejection is
  caught as well. The argument is the outcome of the call to the service.
\<close>

definition HealthController_check :: "error + 'a promise \<Rightarrow> error + 'a promise" where
  "HealthController_check service_call =
     (case service_call of
        Inr p \<Rightarrow> Inr p
      | Inl err \<Rightarrow> Inl (BadRequestException (message err)))"

definition HealthController_infos :: "error + 'a promise \<Rightarrow> 'a promise" where
  "HealthController_infos service_call =
     (case service_call of
        Inr (Resolved v) \<Rightarrow> Resolved v
      | Inr (Rejected err) \<Rightarrow> Rejected (BadRequestException (message err))
      | Inl err \<Rightarrow> Rejected (BadRequestException (message err)))"

text \<open>
  The responses the handlers document: 200 with the returned value, 400 for a
  \<open>BadRequestException\<close>. Any other error is left to the framework's exception layer.
\<close>

datatype 'a response = Ok200 'a | BadRequest400 string | Unhandled error

fun exception_response :: "error \<Rightarrow> 'a response" where
  "exception_response (BadRequestException m) = BadRequest400 m"
| "exception_response e = Unhandled e"

fun respond :: "error + 'a promise \<Rightarrow> 'a response" where
  "respond (Inr (Resolved v)) = Ok200 v"
| "respond (Inr (Rejected e)) = exception_response e"
| "respond (Inl e) = exception_response e"

section \<open>The module and its routes\<close>

text \<open>
  What the decorators of the two route handlers record: the path of the route and the
  time-to-live given to \<open>CacheTTL\<close>. This is metadata; nothing in the controller reads
  it, and the controller binds no interceptor.
\<close>

record route =
  route_path :: string
  cache_ttl :: "nat option"

definition check_route :: route where
  "check_route = \<lparr>route_path = ''check'', cache_ttl = Some 1\<rparr>"

definition infos_route :: route where
  "infos_route = \<lparr>route_path = ''infos'', cache_ttl = Some 1\<rparr>"

text \<open>
  \<open>HealthModule.forRoot\<close>: the modules it imports, its controllers, providers and
  exports, by name. The given options only feed the \<open>redisOptions\<close> provider.
\<close>

record DynamicModule =
  module_imports :: "string list"
  module_controllers :: "string list"
  module_providers :: "string list"
  module_exports :: "string list"

definition forRoot :: "RedisOptions \<Rightarrow> DynamicModule" where
  "forRoot redisOptions_v =
     \<lparr>module_imports = [''TerminusModule''],
      module_controllers = [''HealthController''],
      module_providers = [''HealthService'', ''DagHealthIndicator'', ''redisOptions''],
      module_exports = [''HealthService'']\<rparr>"

text \<open>
  A request to a route of this module: no cache store and no interceptor is bound by
  the controller or by the module, so the request reaches the handler, and the answer
  is the handler's. For \<open>GET /health/check\<close> the argument is the outcome of the call
  to the service at the time of the request; for \<open>GET /health/infos\<close> it is what the
  providers answer at that time.
\<close>

definition GET_health_check :: "error + AggregateReport promise \<Rightarrow> AggregateReport response" where
  "GET_health_check service_call = respond (HealthController_check service_call)"

definition GET_health_infos :: "'v providers \<Rightarrow> 'v IHealthInfos response" where
  "GET_health_infos env = respond (Inr (HealthController_infos (Inr (HealthService_infos env))))"

section \<open>Sample inputs\<close>

text \<open>
  A machine with two cores whose providers all answer, parameterised by the cumulative
  CPU times and by the answer of the network-statistics provider, with \<open>js_plus\<close> as
  the runtime's addition; and a service whose library indicators all report UP,
  parameterised by the DAG indicator's state.
\<close>

definition sample_providers :: "nat \<Rightarrow> nat \<Rightarrow> error + jsval NetStat list \<Rightarrow> jsval providers" where
  "sample_providers u s stats =
     \<lparr>process_cpuUsage = \<lparr>user = u, system = s\<rparr>,
      os_cpus = [\<lparr>cpu_speed = 2400\<rparr>, \<lparr>cpu_speed = 2600\<rparr>],
      os_platform = ''linux'', os_release = ''6.1'', os_uptime = 3600,
      osu_os_oos = Inr ''Debian'', osu_os_arch = Inr ''x64'',
      osu_mem_info = Inr \<lparr>totalMemMb = 1024, usedMemMb = 256, freeMemMb = 768,
                          usedMemPercentage = 25, freeMemPercentage = 75\<rparr>,
      osu_drive_info = Inr \<lparr>totalGb = ''100'', usedGb = ''40'', freeGb = ''60'',
                            usedPercentage = ''40'', freePercentage = ''60''\<rparr>,
      osu_netstat_stats = stats,
      add_any = js_plus, number_zero = JSNumber 0\<rparr>"

text \<open>
  Two interfaces, once with the counters as numbers and once with the same counters as
  strings.
\<close>

definition sample_stats :: "jsval NetStat list" where
  "sample_stats =
     [\<lparr>inputBytes = JSNumber 100, outputBytes = JSNumber 40, interface = ''eth0''\<rparr>,
      \<lparr>inputBytes = JSNumber 7, outputBytes = JSNumber 7, interface = ''lo''\<rparr>]"

definition sample_string_stats :: "jsval NetStat list" where
  "sample_string_stats =
     [\<lparr>inputBytes = JSString ''100'', outputBytes = JSString ''40'', interface = ''eth0''\<rparr>,
      \<lparr>inputBytes = JSString ''7'', outputBytes = JSString ''7'', interface = ''lo''\<rparr>]"

definition sample_service :: "DagHealthIndicator \<Rightarrow> HealthService" where
  "sample_service dag =
     \<lparr>disk_checkStorage = (\<lambda>key opts. Inr (getStatus key True Map.empty)),
      memory_checkHeap = (\<lambda>key limit. Inr (getStatus key True Map.empty)),
      memory_checkRSS = (\<lambda>key limit. Inr (getStatus key True Map.empty)),
      mongoose_pingCheck = (\<lambda>key. Inr (getStatus key True Map.empty)),
      microservice_pingCheck = (\<lambda>key opts. Inr (getStatus key True Map.empty)),
      dagHealthIndicator = dag,
      redisOptions = \<lparr>host = ''localhost'', port = 6379, password = None\<rparr>\<rparr>"

text \<open>Two indicators: A always fails with a fault, B always reports UP.\<close>

definition indicator_A :: HealthIndicatorFunction where
  "indicator_A = (\<lambda>_. Inl (Error ''timeout''))"

definition indicator_B :: HealthIndicatorFunction where
  "indicator_B = (\<lambda>_. Inr (getStatus ''B'' True Map.empty))"

section \<open>Properties of the DAG health indicator\<close>

lemma handleNetworkThresholdOnline_fields:
  "priv_isHealthy (handleNetworkThresholdOnline p s) = True"
  "dagNetwork (handleNetworkThresholdOnline p s) = network p"
  by (simp_all add: handleNetworkThresholdOnline_def)

lemma handleNetworkThresholdOffline_fields:
  "priv_isHealthy (handleNetworkThresholdOffline p s) = False"
  "dagNetwork (handleNetworkThresholdOffline p s) = network p"
  by (simp_all add: handleNetworkThresholdOffline_def)

lemma OnThresholdCrossed_fields:
  "priv_isHealthy (OnThresholdCrossed b d s) = b"
  "dagNetwork (OnThresholdCrossed b d s) = d"
  by (simp_all add: OnThresholdCrossed_def handleNetworkThresholdOnline_fields
      handleNetworkThresholdOffline_fields)

text \<open>
  Claim C3. Starting from the initial state, the trace
  IsHealthy; OnThresholdCrossed(true, X); IsHealthy; OnThresholdCrossed(false, Y); IsHealthy
  behaves as follows: the first read fails with a check-failed error whose result has
  status DOWN; after the online notification with payload X the read succeeds with
  detail.network = X; after the following offline notification with payload Y the read
  fails again, with detail.network = Y.
\<close>

theorem dag_trace:
  "(let s0 = new_DagHealthIndicator;
        r1 = isHealthy s0;
        s1 = OnThresholdCrossed True X s0;
        r2 = isHealthy s1;
        s2 = OnThresholdCrossed False Y s1;
        r3 = isHealthy s2
    in r1 = Inl (HealthCheckError ''Dagcheck failed''
                  \<lparr>name = ''dag'', status = DOWN, detail = [''network'' \<mapsto> JArr []]\<rparr>)
     \<and> r2 = Inr \<lparr>name = ''dag'', status = UP, detail = [''network'' \<mapsto> X]\<rparr>
     \<and> r3 = Inl (HealthCheckError ''Dagcheck failed''
                  \<lparr>name = ''dag'', status = DOWN, detail = [''network'' \<mapsto> Y]\<rparr>))"
  by (simp add: Let_def isHealthy_def getStatus_def OnThresholdCrossed_fields
      new_DagHealthIndicator_def)

text \<open>
  Claim C4. In every state, IsHealthy raises a check-failed error if and only if the
  healthy flag is false; the error then carries as its cause the result the call would
  otherwise return, with name "dag", status DOWN and detail {network: payload}; when
  the flag is true the call returns that result with status UP.
\<close>

theorem isHealthy_fails_iff_unhealthy:
  "(isl (isHealthy this) \<longleftrightarrow> \<not> priv_isHealthy this)
   \<and> (\<not> priv_isHealthy this \<longrightarrow>
        isHealthy this = Inl (HealthCheckError ''Dagcheck failed''
          \<lparr>name = ''dag'', status = DOWN, detail = [''network'' \<mapsto> dagNetwork this]\<rparr>))
   \<and> (priv_isHealthy this \<longrightarrow>
        isHealthy this =
          Inr \<lparr>name = ''dag'', status = UP, detail = [''network'' \<mapsto> dagNetwork this]\<rparr>)"
  by (simp add: isHealthy_def getStatus_def Let_def)

theorem isHealthy_fails_iff_unhealthy_witness:
  "isl (isHealthy \<lparr>priv_isHealthy = False, dagNetwork = JStr ''offline''\<rparr>)
   \<and> isHealthy \<lparr>priv_isHealthy = False, dagNetwork = JStr ''offline''\<rparr> =
       Inl (HealthCheckError ''Dagcheck failed''
         \<lparr>name = ''dag'', status = DOWN, detail = [''network'' \<mapsto> JStr ''offline'']\<rparr>)
   \<and> \<not> isl (isHealthy \<lparr>priv_isHealthy = True, dagNetwork = JStr ''online''\<rparr>)
   \<and> isHealthy \<lparr>priv_isHealthy = True, dagNetwork = JStr ''online''\<rparr> =
       Inr \<lparr>name = ''dag'', status = UP, detail = [''network'' \<mapsto> JStr ''online'']\<rparr>"
  using isHealthy_fails_iff_unhealthy [of "\<lparr>priv_isHealthy = False, dagNetwork = JStr ''offline''\<rparr>"]
    isHealthy_fails_iff_unhealthy [of "\<lparr>priv_isHealthy = True, dagNetwork = JStr ''online''\<rparr>"]
  by simp

section \<open>Properties of the system information\<close>

lemma foldl_network:
  "foldl (\<lambda>acc curr. \<lparr>inputBytes = f (inputBytes acc) (inputBytes curr),
                        outputBytes = f (outputBytes acc) (outputBytes curr)\<rparr>) a xs =
   \<lparr>inputBytes = foldl f (inputBytes a) (map inputBytes xs),
    outputBytes = foldl f (outputBytes a) (map outputBytes xs)\<rparr>"
  by (induction xs arbitrary: a) simp_all

lemma infos_network_value:
  "infos_network env =
     (case osu_netstat_stats env of
        Inl e \<Rightarrow> \<lparr>inputBytes = number_zero env, outputBytes = number_zero env\<rparr>
      | Inr stats \<Rightarrow>
          \<lparr>inputBytes = foldl (add_any env) (number_zero env) (map inputBytes stats),
           outputBytes = foldl (add_any env) (number_zero env) (map outputBytes stats)\<rparr>)"
  by (simp add: infos_network_def foldl_network comp_def split: sum.splits)

lemma infos_Inr_network:
  "infos env = Inr snap \<Longrightarrow> IHealthInfos.network snap = infos_network env"
  by (auto simp: infos_def Let_def split: sum.splits)

lemma getCpuUsage_netstat: "getCpuUsage (env\<lparr>osu_netstat_stats := ns\<rparr>) = getCpuUsage env"
  by (simp add: getCpuUsage_def Let_def split: sum.splits)

lemma infos_Inl_netstat:
  "infos env = Inl e \<Longrightarrow> infos (env\<lparr>osu_netstat_stats := ns\<rparr>) = Inl e"
  by (auto simp: infos_def Let_def getCpuUsage_netstat split: sum.splits)

lemma sample_getCpuUsage:
  "getCpuUsage (sample_providers u s ns) =
     Inr \<lparr>usage = real (u + s) / 2000000, cpus = 2, speed = 2500\<rparr>"
  by (simp add: getCpuUsage_def sample_providers_def Let_def)

lemma sample_fields:
  "osu_os_oos (sample_providers u s ns) = Inr ''Debian''"
  "osu_os_arch (sample_providers u s ns) = Inr ''x64''"
  "osu_netstat_stats (sample_providers u s ns) = ns"
  "process_cpuUsage (sample_providers u s ns) = \<lparr>user = u, system = s\<rparr>"
  "length (os_cpus (sample_providers u s ns)) = 2"
  "\<not> isl (osu_mem_info (sample_providers u s ns))"
  "\<not> isl (osu_drive_info (sample_providers u s ns))"
  "add_any (sample_providers u s ns) = js_plus"
  "number_zero (sample_providers u s ns) = JSNumber 0"
  by (simp_all add: sample_providers_def)

lemma infos_isl:
  "isl (infos env) \<longleftrightarrow>
     isl (osu_os_oos env) \<or> isl (osu_os_arch env) \<or> isl (getCpuUsage env)
     \<or> isl (osu_mem_info env) \<or> isl (osu_drive_info env)"
  by (simp add: infos_def Let_def split: sum.splits)

lemma sample_infos_isr: "\<not> isl (infos (sample_providers u s ns))"
  by (simp add: infos_isl sample_fields sample_getCpuUsage)

text \<open>
  The network part of \<open>infos\<close> never makes it reject: an error of \<open>infos\<close> is the same
  whatever the network-statistics provider answers. In a snapshot, the network field
  holds the number 0 twice when reading the statistics threw, and otherwise, for each
  counter, the result of applying the runtime's \<open>+\<close> from the number 0 through the
  interfaces in order.
\<close>

lemma infos_network_part:
  "(\<forall>e ns. infos env = Inl e \<longrightarrow> infos (env\<lparr>osu_netstat_stats := ns\<rparr>) = Inl e)
   \<and> (\<forall>snap. infos env = Inr snap \<longrightarrow>
        IHealthInfos.network snap =
          (case osu_netstat_stats env of
             Inl e \<Rightarrow> \<lparr>inputBytes = number_zero env, outputBytes = number_zero env\<rparr>
           | Inr stats \<Rightarrow>
               \<lparr>inputBytes = foldl (add_any env) (number_zero env) (map inputBytes stats),
                outputBytes = foldl (add_any env) (number_zero env) (map outputBytes stats)\<rparr>))"
  using infos_Inl_netstat infos_Inr_network infos_network_value by metis

lemma sample_network:
  "IHealthInfos.network (projr (infos (sample_providers u s ns))) =
     (case ns of
        Inl e \<Rightarrow> \<lparr>inputBytes = JSNumber 0, outputBytes = JSNumber 0\<rparr>
      | Inr stats \<Rightarrow>
          \<lparr>inputBytes = foldl js_plus (JSNumber 0) (map inputBytes stats),
           outputBytes = foldl js_plus (JSNumber 0) (map outputBytes stats)\<rparr>)"
proof -
  have "infos (sample_providers u s ns) = Inr (projr (infos (sample_providers u s ns)))"
    using sample_infos_isr [of u s ns] by simp
  from infos_network_part [of "sample_providers u s ns", THEN conjunct2, rule_format, OF this]
  show ?thesis by (simp add: sample_fields split: sum.splits)
qed

lemma decimal_0: "decimal 0 = ''0''"
  by (simp add: decimal.simps [of 0])

text \<open>
  Claim C10, at the input where the code departs from it. The network-statistics
  provider answers with two interfaces whose counters are strings, '100' and '7'
  received, '40' and '7' sent. \<open>infos\<close> returns a snapshot, and its network field is
  {inputBytes: '01007', outputBytes: '0407'}: the counters are concatenated onto the
  number 0, not summed to 107 and 47. With the same counters as numbers the field is
  {107, 47}, and when the provider throws it is {0, 0}.
\<close>

theorem infos_concatenates_string_counters:
  "\<not> isl (infos (sample_providers 1000000 500000 (Inr sample_string_stats)))
   \<and> IHealthInfos.network (projr (infos (sample_providers 1000000 500000 (Inr sample_string_stats))))
       = \<lparr>inputBytes = JSString ''01007'', outputBytes = JSString ''0407''\<rparr>
   \<and> \<not> isl (infos (sample_providers 1000000 500000 (Inr sample_stats)))
   \<and> IHealthInfos.network (projr (infos (sample_providers 1000000 500000 (Inr sample_stats))))
       = \<lparr>inputBytes = JSNumber 107, outputBytes = JSNumber 47\<rparr>
   \<and> \<not> isl (infos (sample_providers 1000000 500000 (Inl (Error ''netstat failed''))))
   \<and> IHealthInfos.network
         (projr (infos (sample_providers 1000000 500000 (Inl (Error ''netstat failed'')))))
       = \<lparr>inputBytes = JSNumber 0, outputBytes = JSNumber 0\<rparr>"
  by (simp add: sample_infos_isr sample_network sample_string_stats_def sample_stats_def
      decimal_0)

lemma getCpuUsage_Inr:
  "getCpuUsage env = Inr m \<Longrightarrow>
     usage m = real (user (process_cpuUsage env) + system (process_cpuUsage env))
               / real (length (os_cpus env) * 1000 * 1000)"
  by (cases "os_cpus env") (auto simp: getCpuUsage_def Let_def)

lemma infos_Inr_cpu: "infos env = Inr snap \<Longrightarrow> getCpuUsage env = Inr (cpu snap)"
  by (auto simp: infos_def Let_def split: sum.splits)

lemma usage_mono:
  assumes "getCpuUsage env1 = Inr m1" and "getCpuUsage env2 = Inr m2"
    and "user (process_cpuUsage env1) \<le> user (process_cpuUsage env2)"
    and "system (process_cpuUsage env1) \<le> system (process_cpuUsage env2)"
    and "length (os_cpus env1) = length (os_cpus env2)"
  shows "usage m1 \<le> usage m2"
proof -
  from assms(1) have u1: "usage m1 =
      real (user (process_cpuUsage env1) + system (process_cpuUsage env1))
        / real (length (os_cpus env1) * 1000 * 1000)"
    by (simp add: getCpuUsage_Inr)
  from assms(2) have u2: "usage m2 =
      real (user (process_cpuUsage env2) + system (process_cpuUsage env2))
        / real (length (os_cpus env2) * 1000 * 1000)"
    by (simp add: getCpuUsage_Inr)
  have "real (user (process_cpuUsage env1) + system (process_cpuUsage env1))
      \<le> real (user (process_cpuUsage env2) + system (process_cpuUsage env2))"
    using assms(3,4) by simp
  then show ?thesis
    unfolding u1 u2 assms(5) by (rule divide_right_mono) simp
qed

text \<open>
  Claim C9. For two successive calls of the CPU-usage computation in one process, the
  later usage is greater than or equal to the earlier one, also as it appears in
  \<open>infos().cpu.usage\<close>: the cumulative user and system times of the process only grow,
  the number of cores is the same, and the usage is their sum divided by the core
  count (times one million), never reset.
\<close>

theorem getCpuUsage_monotone:
  assumes "user (process_cpuUsage env1) \<le> user (process_cpuUsage env2)"
    and "system (process_cpuUsage env1) \<le> system (process_cpuUsage env2)"
    and "length (os_cpus env1) = length (os_cpus env2)"
  shows "(getCpuUsage env1 = Inr m1 \<and> getCpuUsage env2 = Inr m2 \<longrightarrow> usage m1 \<le> usage m2)
     \<and> (infos env1 = Inr snap1 \<and> infos env2 = Inr snap2 \<longrightarrow>
          usage (cpu snap1) \<le> usage (cpu snap2))"
  using assms by (blast intro: usage_mono dest: infos_Inr_cpu)

theorem getCpuUsage_monotone_witness:
  "getCpuUsage (sample_providers 1000000 500000 (Inr []))
     = Inr \<lparr>usage = 3 / 4, cpus = 2, speed = 2500\<rparr>
   \<and> getCpuUsage (sample_providers 3000000 500000 (Inr []))
     = Inr \<lparr>usage = 7 / 4, cpus = 2, speed = 2500\<rparr>
   \<and> usage \<lparr>usage = 3 / 4, cpus = 2, speed = 2500\<rparr>
       \<le> usage \<lparr>usage = 7 / 4, cpus = 2, speed = 2500\<rparr>
   \<and> \<not> isl (infos (sample_providers 1000000 500000 (Inr [])))
   \<and> \<not> isl (infos (sample_providers 3000000 500000 (Inr [])))
   \<and> usage (cpu (projr (infos (sample_providers 1000000 500000 (Inr [])))))
       \<le> usage (cpu (projr (infos (sample_providers 3000000 500000 (Inr [])))))"
proof -
  let ?e1 = "sample_providers 1000000 500000 (Inr [])"
  let ?e2 = "sample_providers 3000000 500000 (Inr [])"
  have a: "getCpuUsage ?e1 = Inr \<lparr>usage = 3 / 4, cpus = 2, speed = 2500\<rparr>"
    by (simp add: sample_getCpuUsage)
  have b: "getCpuUsage ?e2 = Inr \<lparr>usage = 7 / 4, cpus = 2, speed = 2500\<rparr>"
    by (simp add: sample_getCpuUsage)
  have i1: "\<not> isl (infos ?e1)" and i2: "\<not> isl (infos ?e2)"
    by (rule sample_infos_isr)+
  then have j1: "infos ?e1 = Inr (projr (infos ?e1))" and j2: "infos ?e2 = Inr (projr (infos ?e2))"
    by simp_all
  have h: "user (process_cpuUsage ?e1) \<le> user (process_cpuUsage ?e2)"
      "system (process_cpuUsage ?e1) \<le> system (process_cpuUsage ?e2)"
      "length (os_cpus ?e1) = length (os_cpus ?e2)"
    by (simp_all add: sample_fields)
  note w = getCpuUsage_monotone [OF h]
  from w [THEN conjunct1, rule_format, OF conjI [OF a b]]
  have c: "usage \<lparr>usage = 3 / 4, cpus = 2, speed = 2500\<rparr>
       \<le> usage \<lparr>usage = 7 / 4, cpus = 2, speed = 2500\<rparr>" .
  from w [THEN conjunct2, rule_format, OF conjI [OF j1 j2]]
  have d: "usage (cpu (projr (infos ?e1))) \<le> usage (cpu (projr (infos ?e2)))" .
  from a b c i1 i2 d show ?thesis by (intro conjI)
qed

section \<open>Properties of the aggregate health check\<close>

lemma foldl_populate:
  "foldl (\<lambda>m (key, result). m(key \<mapsto> result)) m xs = m ++ map_of (rev xs)"
  by (induction xs arbitrary: m) (auto simp: map_add_upd_left)

lemma populate_map_of: "populate xs = map_of (rev xs)"
  by (simp add: populate_def foldl_populate)

lemma dom_populate: "dom (populate xs) = fst ` set xs"
  by (simp add: populate_map_of dom_map_of_conv_image_fst)

lemma populate_empty_iff: "populate xs = Map.empty \<longleftrightarrow> xs = []"
  by (simp add: populate_map_of)

lemma populate_Some_iff:
  "distinct (map fst xs) \<Longrightarrow> populate xs k = Some r \<longleftrightarrow> (k, r) \<in> set xs"
  by (simp add: populate_map_of rev_map [symmetric])

lemma populate_None_iff: "populate xs k = None \<longleftrightarrow> k \<notin> fst ` set xs"
  by (simp add: dom_populate [symmetric] domIff)

lemma status_cases: "status r = UP \<or> status r = DOWN"
  by (cases "status r") simp_all

lemma assemble_details:
  "distinct (map fst xs) \<Longrightarrow> (k, r) \<in> set xs \<Longrightarrow> details (assemble xs) k = Some r"
  by (simp add: assemble_def Let_def populate_Some_iff)

lemma assemble_up:
  assumes "distinct (map fst xs)" and "(k, r) \<in> set xs" and "status r = UP"
  shows "info (assemble xs) k = Some r" and "error (assemble xs) k = None"
proof -
  show "info (assemble xs) k = Some r"
    using assms by (simp add: assemble_def Let_def populate_Some_iff distinct_map_filter)
  have "\<And>r'. (k, r') \<in> set xs \<Longrightarrow> r' = r"
    using assms(1,2) by (meson eq_key_imp_eq_value)
  with assms(3) show "error (assemble xs) k = None"
    by (auto simp: assemble_def Let_def populate_None_iff)
qed

lemma assemble_down:
  assumes "distinct (map fst xs)" and "(k, r) \<in> set xs" and "status r = DOWN"
  shows "error (assemble xs) k = Some r" and "info (assemble xs) k = None"
proof -
  show "error (assemble xs) k = Some r"
    using assms by (simp add: assemble_def Let_def populate_Some_iff distinct_map_filter)
  have "\<And>r'. (k, r') \<in> set xs \<Longrightarrow> r' = r"
    using assms(1,2) by (meson eq_key_imp_eq_value)
  with assms(3) show "info (assemble xs) k = None"
    by (auto simp: assemble_def Let_def populate_None_iff)
qed

lemma assemble_status_error_iff:
  "report_status (assemble xs) = ERROR \<longleftrightarrow> error (assemble xs) \<noteq> Map.empty"
  by (simp add: assemble_def Let_def populate_empty_iff)

lemma assemble_status_ok_iff:
  "report_status (assemble xs) = OK \<longleftrightarrow> error (assemble xs) = Map.empty"
  by (simp add: assemble_def Let_def populate_empty_iff)

lemma assemble_status_ok_all_up:
  "report_status (assemble xs) = OK \<longleftrightarrow> list_all (\<lambda>(key, result). status result = UP) xs"
proof -
  have "filter (\<lambda>(key, result). status result = DOWN) xs = []
        \<longleftrightarrow> list_all (\<lambda>(key, result). status result = UP) xs"
    by (induction xs) (auto intro: indicator_status.exhaust)
  then show ?thesis by (simp add: assemble_def Let_def)
qed

lemma assemble_domains:
  "dom (details (assemble xs)) = fst ` set xs"
  "dom (info (assemble xs)) \<union> dom (error (assemble xs)) = fst ` set xs"
proof -
  show "dom (details (assemble xs)) = fst ` set xs"
    by (simp add: assemble_def Let_def dom_populate)
  have "\<And>k r. (k, r) \<in> set xs \<Longrightarrow> status r \<noteq> DOWN \<Longrightarrow> status r = UP"
    using status_cases by blast
  then show "dom (info (assemble xs)) \<union> dom (error (assemble xs)) = fst ` set xs"
    by (force simp: assemble_def Let_def dom_populate)
qed

lemma assemble_disjoint:
  assumes "distinct (map fst xs)"
  shows "dom (info (assemble xs)) \<inter> dom (error (assemble xs)) = {}"
proof -
  have False if i: "k \<in> dom (info (assemble xs))" and e: "k \<in> dom (error (assemble xs))" for k
  proof -
    from i obtain r where r: "(k, r) \<in> set xs" "status r = UP"
      by (auto simp: assemble_def Let_def dom_populate)
    from e obtain r' where r': "(k, r') \<in> set xs" "status r' = DOWN"
      by (auto simp: assemble_def Let_def dom_populate)
    from assms r(1) r'(1) have "r = r'" by (meson eq_key_imp_eq_value)
    with r(2) r'(2) show False by simp
  qed
  then show ?thesis by blast
qed

lemma map_fst_run_isolated: "map fst (map run_isolated regs) = map fst regs"
  by (induction regs) (auto simp: run_isolated_def)

lemma status_run_isolated:
  "status (snd (run_isolated (k, f))) = (if fails f then DOWN else UP)"
  by (auto simp: run_isolated_def fails_def split: sum.splits error.splits
      intro: indicator_status.exhaust)

lemma sample_check_initial:
  "\<exists>report. HealthService_check (sample_service new_DagHealthIndicator) = Resolved report
     \<and> report_status report = ERROR
     \<and> error report = [''dag'' \<mapsto> \<lparr>name = ''dag'', status = DOWN,
                                     detail = [''network'' \<mapsto> JArr []]\<rparr>]"
  by (simp add: HealthService_check_def HealthCheckService_check_def registered_def
      sample_service_def new_DagHealthIndicator_def isHealthy_def getStatus_def
      run_isolated_def assemble_def populate_def Let_def)

lemma sample_check_online:
  "\<exists>report. HealthService_check (sample_service (OnThresholdCrossed True d new_DagHealthIndicator))
        = Resolved report
     \<and> report_status report = OK \<and> error report = Map.empty
     \<and> info report ''dag'' = Some \<lparr>name = ''dag'', status = UP, detail = [''network'' \<mapsto> d]\<rparr>"
  by (simp add: HealthService_check_def HealthCheckService_check_def registered_def
      sample_service_def OnThresholdCrossed_fields isHealthy_def getStatus_def
      run_isolated_def assemble_def populate_def Let_def)

text \<open>
  Claim C1. For every outcome of the six registered indicator checks, the report
  returned by the aggregate check has status OK if and only if its error map is empty,
  equivalently if and only if every contributing indicator result has status UP, and
  status ERROR if and only if the error map is non-empty.
\<close>

theorem check_status_iff_error_empty:
  "\<exists>report. HealthService_check this = Resolved report
     \<and> (report_status report = OK \<longleftrightarrow> error report = Map.empty)
     \<and> (report_status report = ERROR \<longleftrightarrow> error report \<noteq> Map.empty)
     \<and> (report_status report = OK \<longleftrightarrow>
          list_all (\<lambda>(key, result). status result = UP) (map run_isolated (registered this)))"
  unfolding HealthService_check_def HealthCheckService_check_def
  using assemble_status_ok_iff assemble_status_error_iff assemble_status_ok_all_up
  by blast

theorem check_status_iff_error_empty_witness:
  "(\<exists>report. HealthService_check (sample_service new_DagHealthIndicator) = Resolved report
       \<and> report_status report = ERROR \<and> error report \<noteq> Map.empty)
   \<and> (\<exists>report. HealthService_check
           (sample_service (OnThresholdCrossed True (JStr ''mainnet'') new_DagHealthIndicator))
         = Resolved report
       \<and> report_status report = OK \<and> error report = Map.empty)"
proof -
  from check_status_iff_error_empty [of "sample_service new_DagHealthIndicator"]
  obtain r1 where r1: "HealthService_check (sample_service new_DagHealthIndicator) = Resolved r1"
    and e1: "report_status r1 = ERROR \<longleftrightarrow> error r1 \<noteq> Map.empty"
    by blast
  from sample_check_initial r1 have "report_status r1 = ERROR" by auto
  with e1 have "error r1 \<noteq> Map.empty" by simp
  with r1 \<open>report_status r1 = ERROR\<close>
  have a: "\<exists>report. HealthService_check (sample_service new_DagHealthIndicator) = Resolved report
       \<and> report_status report = ERROR \<and> error report \<noteq> Map.empty"
    by blast
  let ?s = "sample_service (OnThresholdCrossed True (JStr ''mainnet'') new_DagHealthIndicator)"
  from check_status_iff_error_empty [of ?s]
  obtain r2 where r2: "HealthService_check ?s = Resolved r2"
    and e2: "report_status r2 = OK \<longleftrightarrow> error r2 = Map.empty"
    by blast
  from sample_check_online [of "JStr ''mainnet''"] r2 have "report_status r2 = OK" by auto
  with e2 have "error r2 = Map.empty" by simp
  with r2 \<open>report_status r2 = OK\<close>
  have b: "\<exists>report. HealthService_check ?s = Resolved report
       \<and> report_status report = OK \<and> error report = Map.empty"
    by blast
  from a b show ?thesis by (intro conjI)
qed

lemma distinct_registered: "distinct (map fst (registered this))"
  by (simp add: registered_def)

lemma map_fst_registered:
  "map fst (registered this) =
     [''storage'', ''memory_heap'', ''memory_rss'', ''mongoose'', ''redis'', ''dag'']"
  by (simp add: registered_def)

text \<open>
  Claim C5. For every outcome of the six registered indicators (storage, memory_heap,
  memory_rss, mongoose, redis, dag), the report's details map has exactly six entries,
  one per registered name, each name contributing exactly one result, and each
  indicator is in exactly one of the info and error maps.
\<close>

theorem check_reports_each_indicator_once:
  "\<exists>report. HealthService_check this = Resolved report
     \<and> map fst (map run_isolated (registered this)) =
           [''storage'', ''memory_heap'', ''memory_rss'', ''mongoose'', ''redis'', ''dag'']
     \<and> length (registered this) = 6
     \<and> dom (details report) =
           {''storage'', ''memory_heap'', ''memory_rss'', ''mongoose'', ''redis'', ''dag''}
     \<and> card (dom (details report)) = 6
     \<and> dom (info report) \<union> dom (error report) = dom (details report)
     \<and> dom (info report) \<inter> dom (error report) = {}"
proof -
  let ?results = "map run_isolated (registered this)"
  let ?names = "[''storage'', ''memory_heap'', ''memory_rss'', ''mongoose'', ''redis'', ''dag'']"
  have names: "map fst ?results = ?names"
    by (simp only: map_fst_run_isolated map_fst_registered)
  have len: "length (registered this) = 6"
    by (simp add: registered_def)
  have "fst ` set ?results = set (map fst ?results)" by (simp only: set_map)
  also have "\<dots> = set ?names" by (simp only: names)
  finally have img: "fst ` set ?results = set ?names" .
  have d: "dom (details (assemble ?results)) = set ?names"
    by (simp only: assemble_domains(1) img)
  have u: "dom (info (assemble ?results)) \<union> dom (error (assemble ?results))
           = dom (details (assemble ?results))"
    by (simp only: assemble_domains)
  have "distinct (map fst ?results)"
    by (simp only: map_fst_run_isolated distinct_registered)
  then have i: "dom (info (assemble ?results)) \<inter> dom (error (assemble ?results)) = {}"
    by (rule assemble_disjoint)
  have c: "card (set ?names) = 6" by simp
  show ?thesis
    unfolding HealthService_check_def HealthCheckService_check_def
    using names len d u i c by simp
qed

lemma run_isolated_in_results:
  "(key, indicator) \<in> set indicators \<Longrightarrow>
     (key, snd (run_isolated (key, indicator))) \<in> set (map run_isolated indicators)"
  by (force simp: run_isolated_def)

lemma assemble_error_iff_ex_down:
  "report_status (assemble xs) = ERROR \<longleftrightarrow> list_ex (\<lambda>(key, result). status result = DOWN) xs"
  by (induction xs) (auto simp: assemble_def Let_def split: if_splits)

lemma list_ex_down_fails:
  "list_ex (\<lambda>(key, result). status result = DOWN) (map run_isolated indicators)
     \<longleftrightarrow> list_ex (\<lambda>(key, indicator). fails indicator) indicators"
proof (induction indicators)
  case Nil
  show ?case by simp
next
  case (Cons x xs)
  obtain k f where x: "x = (k, f)" by (cases x)
  have "run_isolated (k, f) = (k, snd (run_isolated (k, f)))"
    by (simp add: run_isolated_def)
  then have "(case run_isolated (k, f) of (key, result) \<Rightarrow> status result = DOWN) \<longleftrightarrow> fails f"
    by (metis (mono_tags, lifting) case_prod_conv status_run_isolated indicator_status.distinct(1))
  with Cons x show ?case by simp
qed

text \<open>
  Claim C2. The aggregate check never throws on an individual indicator failure: it
  resolves with a report in which every registered indicator has its entry in details;
  an indicator that threw or returned DOWN is recorded as a DOWN entry under its name in
  error (and not in info), every other indicator is recorded as UP in info (and not in
  error), and the status is ERROR exactly when some indicator failed. With indicators
  {A: always DOWN, B: always UP} the report has info = {B}, error = {A}, status ERROR.
\<close>

theorem check_absorbs_indicator_failures:
  assumes "distinct (map fst indicators)"
  shows "\<exists>report. HealthCheckService_check indicators = Resolved report
     \<and> dom (details report) = fst ` set indicators
     \<and> (\<forall>(key, indicator) \<in> set indicators.
          let result = snd (run_isolated (key, indicator)) in
          details report key = Some result \<and>
          (if fails indicator
           then status result = DOWN \<and> error report key = Some result \<and> info report key = None
           else status result = UP \<and> info report key = Some result \<and> error report key = None))
     \<and> (report_status report = ERROR \<longleftrightarrow>
          list_ex (\<lambda>(key, indicator). fails indicator) indicators)"
proof -
  let ?results = "map run_isolated indicators"
  let ?report = "assemble ?results"
  have dist: "distinct (map fst ?results)"
    using assms by (simp only: map_fst_run_isolated)
  have dom_details: "dom (details ?report) = fst ` set indicators"
  proof -
    have "dom (details ?report) = set (map fst ?results)"
      by (simp only: assemble_domains(1) set_map)
    then show ?thesis by (simp only: map_fst_run_isolated set_map)
  qed
  have each: "let result = snd (run_isolated (key, indicator)) in
          details ?report key = Some result \<and>
          (if fails indicator
           then status result = DOWN \<and> error ?report key = Some result \<and> info ?report key = None
           else status result = UP \<and> info ?report key = Some result \<and> error ?report key = None)"
    if mem: "(key, indicator) \<in> set indicators" for key indicator
  proof -
    let ?r = "snd (run_isolated (key, indicator))"
    from mem have in_res: "(key, ?r) \<in> set ?results"
      by (rule run_isolated_in_results)
    have d: "details ?report key = Some ?r"
      using dist in_res by (rule assemble_details)
    show ?thesis
    proof (cases "fails indicator")
      case True
      then have st: "status ?r = DOWN" by (simp add: status_run_isolated)
      from assemble_down [OF dist in_res st] d st True show ?thesis
        by (simp add: Let_def)
    next
      case False
      then have st: "status ?r = UP" by (simp add: status_run_isolated)
      from assemble_up [OF dist in_res st] d st False show ?thesis
        by (simp add: Let_def)
    qed
  qed
  have st: "report_status ?report = ERROR \<longleftrightarrow>
          list_ex (\<lambda>(key, indicator). fails indicator) indicators"
    by (simp only: assemble_error_iff_ex_down list_ex_down_fails)
  have "HealthCheckService_check indicators = Resolved ?report"
    by (simp add: HealthCheckService_check_def)
  with dom_details each st show ?thesis by blast
qed

theorem check_absorbs_indicator_failures_witness:
  "distinct (map fst [(''A'', indicator_A), (''B'', indicator_B)])
   \<and> fails indicator_A \<and> \<not> fails indicator_B
   \<and> HealthCheckService_check [(''A'', indicator_A), (''B'', indicator_B)] =
       Resolved \<lparr>report_status = ERROR,
         info = [''B'' \<mapsto> \<lparr>name = ''B'', status = UP, detail = Map.empty\<rparr>],
         error = [''A'' \<mapsto> \<lparr>name = ''A'', status = DOWN,
                              detail = [''message'' \<mapsto> JStr ''timeout'']\<rparr>],
         details = [''A'' \<mapsto> \<lparr>name = ''A'', status = DOWN,
                                detail = [''message'' \<mapsto> JStr ''timeout'']\<rparr>,
                    ''B'' \<mapsto> \<lparr>name = ''B'', status = UP, detail = Map.empty\<rparr>]\<rparr>
   \<and> (\<exists>report. HealthCheckService_check [(''A'', indicator_A), (''B'', indicator_B)] = Resolved report
        \<and> report_status report = ERROR
        \<and> dom (details report) = {''A'', ''B''}
        \<and> error report ''A'' = Some (snd (run_isolated (''A'', indicator_A)))
        \<and> info report ''A'' = None
        \<and> info report ''B'' = Some (snd (run_isolated (''B'', indicator_B)))
        \<and> error report ''B'' = None)"
proof -
  let ?ab = "[(''A'', indicator_A), (''B'', indicator_B)]"
  have d: "distinct (map fst ?ab)" by simp
  have fa: "fails indicator_A" and fb: "\<not> fails indicator_B"
    by (simp_all add: fails_def indicator_A_def indicator_B_def getStatus_def)
  have e: "HealthCheckService_check ?ab =
       Resolved \<lparr>report_status = ERROR,
         info = [''B'' \<mapsto> \<lparr>name = ''B'', status = UP, detail = Map.empty\<rparr>],
         error = [''A'' \<mapsto> \<lparr>name = ''A'', status = DOWN,
                              detail = [''message'' \<mapsto> JStr ''timeout'']\<rparr>],
         details = [''A'' \<mapsto> \<lparr>name = ''A'', status = DOWN,
                                detail = [''message'' \<mapsto> JStr ''timeout'']\<rparr>,
                    ''B'' \<mapsto> \<lparr>name = ''B'', status = UP, detail = Map.empty\<rparr>]\<rparr>"
    by (simp add: HealthCheckService_check_def assemble_def run_isolated_def populate_def
        indicator_A_def indicator_B_def getStatus_def Let_def)
  from check_absorbs_indicator_failures [OF d]
  obtain report where r: "HealthCheckService_check ?ab = Resolved report"
    and dd: "dom (details report) = fst ` set ?ab"
    and each: "\<forall>(key, indicator) \<in> set ?ab.
          let result = snd (run_isolated (key, indicator)) in
          details report key = Some result \<and>
          (if fails indicator
           then status result = DOWN \<and> error report key = Some result \<and> info report key = None
           else status result = UP \<and> info report key = Some result \<and> error report key = None)"
    and st: "report_status report = ERROR \<longleftrightarrow>
          list_ex (\<lambda>(key, indicator). fails indicator) ?ab"
    by blast
  from st fa have s: "report_status report = ERROR" by simp
  from dd have dk: "dom (details report) = {''A'', ''B''}" by simp
  from each fa have a: "error report ''A'' = Some (snd (run_isolated (''A'', indicator_A)))"
      "info report ''A'' = None"
    by (simp_all add: Let_def)
  from each fb have b: "info report ''B'' = Some (snd (run_isolated (''B'', indicator_B)))"
      "error report ''B'' = None"
    by (simp_all add: Let_def)
  from r s dk a b have "\<exists>report. HealthCheckService_check ?ab = Resolved report
        \<and> report_status report = ERROR
        \<and> dom (details report) = {''A'', ''B''}
        \<and> error report ''A'' = Some (snd (run_isolated (''A'', indicator_A)))
        \<and> info report ''A'' = None
        \<and> info report ''B'' = Some (snd (run_isolated (''B'', indicator_B)))
        \<and> error report ''B'' = None"
    by blast
  with d fa fb e show ?thesis by (intro conjI)
qed

section \<open>Properties of the controller and the routes\<close>

text \<open>
  Claim C7, at the input where the code departs from it. The aggregate check fails and
  the promise returned by the service rejects. \<open>HealthController.check\<close> returns that
  promise as it is: the rejection passes its try/catch, no \<open>BadRequestException\<close> is
  built, and the error reaches the framework unchanged. On the same rejection the
  handler of \<open>GET /health/infos\<close>, which awaits inside its try, answers 400 with the
  error's message.
\<close>

theorem controller_check_misses_rejection:
  "HealthController_check (Inr (Rejected e) :: error + AggregateReport promise)
     = Inr (Rejected e)
   \<and> GET_health_check
        (Inr (Rejected (HealthCheckError ''Dagcheck failed''
               \<lparr>name = ''dag'', status = DOWN, detail = [''network'' \<mapsto> JArr []]\<rparr>)))
       = Unhandled (HealthCheckError ''Dagcheck failed''
               \<lparr>name = ''dag'', status = DOWN, detail = [''network'' \<mapsto> JArr []]\<rparr>)
   \<and> respond (Inr (HealthController_infos
        (Inr (Rejected (HealthCheckError ''Dagcheck failed''
               \<lparr>name = ''dag'', status = DOWN, detail = [''network'' \<mapsto> JArr []]\<rparr>)
              :: jsval IHealthInfos promise))))
       = BadRequest400 ''Dagcheck failed''
   \<and> GET_health_check (Inl (Error ''boom'')) = BadRequest400 ''boom''"
  by (simp add: HealthController_check_def HealthController_infos_def GET_health_check_def)

lemma GET_health_infos_sample:
  "GET_health_infos (sample_providers u s ns) = Ok200 (projr (infos (sample_providers u s ns)))"
proof -
  obtain snap where snap: "infos (sample_providers u s ns) = Inr snap"
    using sample_infos_isr [of u s ns] by (cases "infos (sample_providers u s ns)") auto
  then show ?thesis
    by (simp add: GET_health_infos_def HealthController_infos_def HealthService_infos_def)
qed

lemma sample_usage:
  "usage (cpu (projr (infos (sample_providers u s ns)))) = real (u + s) / 2000000"
proof -
  obtain snap where snap: "infos (sample_providers u s ns) = Inr snap"
    using sample_infos_isr [of u s ns] by (cases "infos (sample_providers u s ns)") auto
  then have "getCpuUsage (sample_providers u s ns) = Inr (cpu snap)"
    by (rule infos_Inr_cpu)
  then have "cpu snap = \<lparr>usage = real (u + s) / 2000000, cpus = 2, speed = 2500\<rparr>"
    by (simp add: sample_getCpuUsage)
  with snap show ?thesis by simp
qed

text \<open>
  Claim C6, at the input where the code departs from it. Both routes carry the
  time-to-live 1 as metadata, and the module imports only the health-check module: no
  cache is bound. Two requests to \<open>GET /health/infos\<close> within one time unit, the
  cumulative CPU time of the process having grown from 1.5 to 3.5 seconds between them,
  are both answered by the handler: the second answer is a fresh snapshot (usage 7/4),
  not the first one (usage 3/4). \<open>GET /health/check\<close> likewise answers with whatever
  the service's call resolves with at the time of the request.
\<close>

theorem routes_run_handler_on_every_request:
  "cache_ttl check_route = Some 1 \<and> cache_ttl infos_route = Some 1
   \<and> module_imports (forRoot redisOptions_v) = [''TerminusModule'']
   \<and> GET_health_infos (sample_providers 1000000 500000 (Inr sample_stats))
       = Ok200 (projr (infos (sample_providers 1000000 500000 (Inr sample_stats))))
   \<and> GET_health_infos (sample_providers 3000000 500000 (Inr sample_stats))
       = Ok200 (projr (infos (sample_providers 3000000 500000 (Inr sample_stats))))
   \<and> usage (cpu (projr (infos (sample_providers 1000000 500000 (Inr sample_stats))))) = 3 / 4
   \<and> usage (cpu (projr (infos (sample_providers 3000000 500000 (Inr sample_stats))))) = 7 / 4
   \<and> GET_health_infos (sample_providers 3000000 500000 (Inr sample_stats))
       \<noteq> GET_health_infos (sample_providers 1000000 500000 (Inr sample_stats))
   \<and> GET_health_check (Inr (Resolved report)) = Ok200 report"
proof -
  let ?e0 = "sample_providers 1000000 500000 (Inr sample_stats)"
  let ?e1 = "sample_providers 3000000 500000 (Inr sample_stats)"
  have u0: "usage (cpu (projr (infos ?e0))) = 3 / 4"
    and u1: "usage (cpu (projr (infos ?e1))) = 7 / 4"
    by (simp_all add: sample_usage)
  have "projr (infos ?e1) \<noteq> projr (infos ?e0)"
  proof
    assume "projr (infos ?e1) = projr (infos ?e0)"
    then have "usage (cpu (projr (infos ?e1))) = usage (cpu (projr (infos ?e0)))" by simp
    with u0 u1 show False by simp
  qed
  then have d: "GET_health_infos ?e1 \<noteq> GET_health_infos ?e0"
    by (simp add: GET_health_infos_sample)
  have m: "cache_ttl check_route = Some 1" "cache_ttl infos_route = Some 1"
      "module_imports (forRoot redisOptions_v) = [''TerminusModule'']"
    by (simp_all add: check_route_def infos_route_def forRoot_def)
  have c: "GET_health_check (Inr (Resolved report)) = Ok200 report"
    by (simp add: GET_health_check_def HealthController_check_def)
  from m GET_health_infos_sample [of 1000000 500000 "Inr sample_stats"]
    GET_health_infos_sample [of 3000000 500000 "Inr sample_stats"] u0 u1 d c
  show ?thesis by (intro conjI)
qed

end
